theory Spec2Isabelle
  imports Main "HOL-Library.Char_ord" "HOL-Library.List_Lexorder"
begin

section \<open>The TrustLines contract (src/algorand/contracts/trust_lines.py)\<close>

text \<open>
  The contract is a PyTeal expression tree. Its subroutines are embedded as functions
  from the ledger state and the calling transaction to either an error or the new
  state. Reading conventions, fixed once for the whole development:

  \<^item> Every integer of the program is an unsigned 64-bit value, modelled as a \<open>nat\<close>
    with the traps of the virtual machine written out: \<^verbatim>\<open>+\<close> and \<^verbatim>\<open>*\<close> fail when the
    result reaches \<open>2^64\<close> (\<open>uadd\<close>, \<open>umul\<close>) and \<^verbatim>\<open>-\<close> fails when the result
    would be negative (\<open>usub\<close>). \<^verbatim>\<open>Int(v)\<close> denotes a value only for
    \<open>0 \<le> v < 2^64\<close>, so \<^verbatim>\<open>Int(-1)\<close> fails where it is evaluated (\<open>Int_const\<close>).
    Comparisons with \<^verbatim>\<open>Int(0)\<close> are comparisons of unsigned values. The increment of
    the creation counter alone is left without its trap, which needs \<open>2^64 - 1\<close>
    successful creations.
  \<^item> \<^verbatim>\<open>And\<close> and \<^verbatim>\<open>Or\<close> evaluate all their operands before combining them, so a
    trap in any operand fails the whole condition. The expression \<^verbatim>\<open>If\<close> evaluates
    its condition and then the one branch taken.
  \<^item> Byte strings are \<open>string\<close> (lists of 8-bit characters). The comparison
    \<^verbatim>\<open>Txn.sender() < counterparty\<close> is the lexicographic order on byte strings.
  \<^item> \<^verbatim>\<open>App.localPut(account1, key, v)\<close> writes into the local state of the account
    \<open>account1\<close>: the store is addressed by that one account, not by the pair. A key
    that was never written reads as 0 (\<^verbatim>\<open>App.localGet\<close>); the record of an account
    that was never written is \<open>empty_line\<close>. Accounts are taken to be opted in.
  \<^item> A failed \<^verbatim>\<open>Assert\<close>, a missing argument or a failed \<^verbatim>\<open>Btoi\<close> rejects the whole
    transaction: the result is \<open>Inl\<close> and no state is produced. \<open>AssertFailed n\<close>
    names the \<open>n\<close>-th \<^verbatim>\<open>Assert\<close> of the subroutine, in the order of its \<^verbatim>\<open>Seq\<close>.
\<close>

subsection \<open>Values, transactions, state\<close>

type_synonym bytes = string

datatype error =
    AssertFailed nat
  | ArgMissing nat
  | BtoiTooLong
  | CondNoMatch
  | IntOutOfRange
  | Overflow
  | Underflow

datatype on_complete = NoOp | OptIn | CloseOut | ClearState | UpdateApplication | DeleteApplication

record txn =
  sender :: bytes
  application_id :: nat
  on_completion :: on_complete
  application_args :: "bytes list"
  group_size :: nat

record trust_line =
  tl_account1 :: bytes
  tl_account2 :: bytes
  tl_asset_id :: bytes
  tl_limit1 :: nat
  tl_limit2 :: nat
  tl_balance :: nat
  tl_quality_in :: nat
  tl_quality_out :: nat
  tl_allow_rippling :: nat

record state =
  admin :: bytes
  next_tl_id :: nat
  locals :: "bytes \<Rightarrow> trust_line"

definition empty_line :: trust_line where
  "empty_line = \<lparr> tl_account1 = [], tl_account2 = [], tl_asset_id = [],
      tl_limit1 = 0, tl_limit2 = 0, tl_balance = 0,
      tl_quality_in = 0, tl_quality_out = 0, tl_allow_rippling = 0 \<rparr>"

definition ebind :: "error + 'a \<Rightarrow> ('a \<Rightarrow> error + 'b) \<Rightarrow> error + 'b" where
  "ebind r f = (case r of Inl e \<Rightarrow> Inl e | Inr x \<Rightarrow> f x)"

text \<open>The constant \<^verbatim>\<open>Int(v)\<close> and the three trapping operations on unsigned 64-bit values.\<close>

definition Int_const :: "int \<Rightarrow> error + nat" where
  "Int_const v = (if 0 \<le> v \<and> v < 2 ^ 64 then Inr (nat v) else Inl IntOutOfRange)"

definition uadd :: "nat \<Rightarrow> nat \<Rightarrow> error + nat" where
  "uadd a b = (if a + b < 2 ^ 64 then Inr (a + b) else Inl Overflow)"

definition umul :: "nat \<Rightarrow> nat \<Rightarrow> error + nat" where
  "umul a b = (if a * b < 2 ^ 64 then Inr (a * b) else Inl Overflow)"

definition usub :: "nat \<Rightarrow> nat \<Rightarrow> error + nat" where
  "usub a b = (if b \<le> a then Inr (a - b) else Inl Underflow)"

text \<open>\<^verbatim>\<open>Txn.application_args[i]\<close>: the program fails when the argument is absent.\<close>

definition arg :: "txn \<Rightarrow> nat \<Rightarrow> error + bytes" where
  "arg tx i = (if i < length (application_args tx)
               then Inr (application_args tx ! i) else Inl (ArgMissing i))"

text \<open>\<^verbatim>\<open>Btoi\<close>: big-endian decoding of at most eight bytes.\<close>

definition Btoi :: "bytes \<Rightarrow> error + nat" where
  "Btoi bs = (if 8 < length bs then Inl BtoiTooLong
              else Inr (foldl (\<lambda>acc c. acc * 256 + of_char c) 0 bs))"

text \<open>\<^verbatim>\<open>Itob\<close>: the eight-byte big-endian encoding.\<close>

definition Itob :: "nat \<Rightarrow> bytes" where
  "Itob n = rev (map (\<lambda>i. char_of (n div 256 ^ i)) [0..<8])"

definition int_arg :: "txn \<Rightarrow> nat \<Rightarrow> error + nat" where
  "int_arg tx i = ebind (arg tx i) Btoi"

text \<open>The role assignment every subroutine recomputes from sender and counterparty.\<close>

definition account1 :: "bytes \<Rightarrow> bytes \<Rightarrow> bytes" where
  "account1 s c = (if s < c then s else c)"

definition account2 :: "bytes \<Rightarrow> bytes \<Rightarrow> bytes" where
  "account2 s c = (if s < c then c else s)"

text \<open>\<^verbatim>\<open>App.localPut(a, ...)\<close>: update fields of the record stored under account \<open>a\<close>.\<close>

definition localPut :: "state \<Rightarrow> bytes \<Rightarrow> (trust_line \<Rightarrow> trust_line) \<Rightarrow> state" where
  "localPut st a f = st\<lparr>locals := (locals st)(a := f (locals st a))\<rparr>"

subsection \<open>Subroutines\<close>

definition on_creation :: "state \<Rightarrow> txn \<Rightarrow> error + state" where
  "on_creation st tx = Inr (st\<lparr>admin := sender tx, next_tl_id := 0\<rparr>)"

definition create_trust_line :: "state \<Rightarrow> txn \<Rightarrow> error + state" where
  "create_trust_line st tx =
     ebind (int_arg tx 3) (\<lambda>limit1.
     if \<not> limit1 > 0 then Inl (AssertFailed 1) else
     ebind (int_arg tx 4) (\<lambda>limit2.
     if \<not> limit2 > 0 then Inl (AssertFailed 2) else
     ebind (arg tx 1) (\<lambda>counterparty.
     if \<not> sender tx \<noteq> counterparty then Inl (AssertFailed 3) else
     ebind (int_arg tx 2) (\<lambda>asset_id.
     ebind (int_arg tx 5) (\<lambda>allow_ripple.
       Inr ((localPut st (account1 (sender tx) counterparty) (\<lambda>l. l\<lparr>
               tl_account1 := account1 (sender tx) counterparty,
               tl_account2 := account2 (sender tx) counterparty,
               tl_asset_id := Itob asset_id,
               tl_limit1 := limit1,
               tl_limit2 := limit2,
               tl_balance := 0,
               tl_quality_in := 1000000,
               tl_quality_out := 1000000,
               tl_allow_rippling := allow_ripple\<rparr>))
            \<lparr>next_tl_id := next_tl_id st + 1\<rparr>))))))"

text \<open>
  The condition of the credit assertion of \<^verbatim>\<open>send_payment\<close>, on the record read and the
  new balance. \<^verbatim>\<open>Int(0) - limit2_val\<close> is an operand of the inner \<^verbatim>\<open>And\<close>, so it is
  computed on every call, and its trap fails the call.
\<close>

definition credit_ok :: "trust_line \<Rightarrow> nat \<Rightarrow> error + bool" where
  "credit_ok l new_balance =
     ebind (usub 0 (tl_limit2 l)) (\<lambda>lower.
       Inr ((new_balance \<ge> 0 \<and> new_balance \<le> tl_limit1 l) \<or>
            (new_balance < 0 \<and> new_balance \<ge> lower)))"

text \<open>\<^verbatim>\<open>If(Txn.sender() == account1, Int(1), Int(-1))\<close>.\<close>

definition direction :: "bytes \<Rightarrow> bytes \<Rightarrow> error + nat" where
  "direction s a1 = (if s = a1 then Int_const 1 else Int_const (- 1))"

definition send_payment :: "state \<Rightarrow> txn \<Rightarrow> error + state" where
  "send_payment st tx =
     ebind (int_arg tx 2) (\<lambda>amount.
     if \<not> amount > 0 then Inl (AssertFailed 1) else
     ebind (arg tx 1) (\<lambda>recipient.
     if \<not> sender tx \<noteq> recipient then Inl (AssertFailed 2) else
     (let a1 = account1 (sender tx) recipient;
          current_balance = tl_balance (locals st a1)
      in ebind (direction (sender tx) a1) (\<lambda>d.
         ebind (umul amount d) (\<lambda>p.
         ebind (uadd current_balance p) (\<lambda>new_balance.
         ebind (credit_ok (locals st a1) new_balance) (\<lambda>ok.
         if \<not> ok then Inl (AssertFailed 3)
         else Inr (localPut st a1 (\<lambda>l. l\<lparr>tl_balance := new_balance\<rparr>)))))))))"

text \<open>
  \<^verbatim>\<open>send_rippling\<close> works on the scratch variable \<open>current_amount\<close> only. The three
  parts of its \<^verbatim>\<open>Seq\<close> are kept apart: \<open>ripple_init\<close> returns the hop count and the
  initial scratch value, \<open>ripple_validate\<close> is the six guarded length checks, and
  \<open>ripple_execute\<close> is the single guarded store of the decayed amount.
\<close>

definition ripple_init :: "txn \<Rightarrow> error + (nat \<times> nat)" where
  "ripple_init tx =
     ebind (int_arg tx 1) (\<lambda>num_hops.
     if \<not> num_hops > 0 then Inl (AssertFailed 1) else
     if \<not> num_hops \<le> 6 then Inl (AssertFailed 2) else
     ebind (int_arg tx 2) (\<lambda>amount.
     if \<not> amount > 0 then Inl (AssertFailed 3) else
     Inr (num_hops, amount)))"

definition validate_hop :: "txn \<Rightarrow> nat \<Rightarrow> nat \<Rightarrow> error + unit" where
  "validate_hop tx num_hops k =
     (if num_hops \<ge> k
      then ebind (arg tx (k + 2)) (\<lambda>h.
             if \<not> length h = 32 then Inl (AssertFailed (k + 3)) else Inr ())
      else Inr ())"

definition ripple_validate :: "txn \<Rightarrow> nat \<Rightarrow> error + unit" where
  "ripple_validate tx num_hops =
     ebind (validate_hop tx num_hops 1) (\<lambda>_.
     ebind (validate_hop tx num_hops 2) (\<lambda>_.
     ebind (validate_hop tx num_hops 3) (\<lambda>_.
     ebind (validate_hop tx num_hops 4) (\<lambda>_.
     ebind (validate_hop tx num_hops 5) (\<lambda>_.
            validate_hop tx num_hops 6)))))"

definition ripple_execute :: "nat \<Rightarrow> nat \<Rightarrow> error + nat" where
  "ripple_execute num_hops current_amount =
     (if num_hops \<ge> 1
      then ebind (umul current_amount 999000) (\<lambda>p. Inr (p div 1000000))
      else Inr current_amount)"

text \<open>The value left in the scratch variable \<open>current_amount\<close> when the call succeeds.\<close>

definition send_rippling_scratch :: "txn \<Rightarrow> error + nat" where
  "send_rippling_scratch tx =
     ebind (ripple_init tx) (\<lambda>(num_hops, amount).
     ebind (ripple_validate tx num_hops) (\<lambda>_.
     ripple_execute num_hops amount))"

definition send_rippling :: "state \<Rightarrow> txn \<Rightarrow> error + state" where
  "send_rippling st tx = ebind (send_rippling_scratch tx) (\<lambda>_. Inr st)"

definition update_quality :: "state \<Rightarrow> txn \<Rightarrow> error + state" where
  "update_quality st tx =
     ebind (int_arg tx 2) (\<lambda>new_quality_in.
     if \<not> new_quality_in > 0 then Inl (AssertFailed 1) else
     if \<not> new_quality_in \<le> 1000000 then Inl (AssertFailed 2) else
     ebind (int_arg tx 3) (\<lambda>new_quality_out.
     if \<not> new_quality_out > 0 then Inl (AssertFailed 3) else
     if \<not> new_quality_out \<le> 1000000 then Inl (AssertFailed 4) else
     ebind (arg tx 1) (\<lambda>counterparty.
       Inr (localPut st (account1 (sender tx) counterparty) (\<lambda>l. l\<lparr>
              tl_quality_in := new_quality_in,
              tl_quality_out := new_quality_out\<rparr>)))))"

definition update_rippling :: "state \<Rightarrow> txn \<Rightarrow> error + state" where
  "update_rippling st tx =
     ebind (int_arg tx 2) (\<lambda>allow_ripple.
     if \<not> (allow_ripple = 0 \<or> allow_ripple = 1) then Inl (AssertFailed 1) else
     ebind (arg tx 1) (\<lambda>counterparty.
       Inr (localPut st (account1 (sender tx) counterparty) (\<lambda>l. l\<lparr>
              tl_allow_rippling := allow_ripple\<rparr>))))"

text \<open>
  The condition of the exposure assertion of \<^verbatim>\<open>update_limits\<close>; \<^verbatim>\<open>Int(0) - current_balance\<close>
  is an operand of the inner \<^verbatim>\<open>And\<close> and is computed on every call.
\<close>

definition exposure_ok :: "nat \<Rightarrow> nat \<Rightarrow> nat \<Rightarrow> error + bool" where
  "exposure_ok current_balance new_limit1 new_limit2 =
     ebind (usub 0 current_balance) (\<lambda>negated.
       Inr ((current_balance \<ge> 0 \<and> new_limit1 \<ge> current_balance) \<or>
            (current_balance < 0 \<and> new_limit2 \<ge> negated)))"

definition update_limits :: "state \<Rightarrow> txn \<Rightarrow> error + state" where
  "update_limits st tx =
     ebind (int_arg tx 2) (\<lambda>new_limit1.
     if \<not> new_limit1 > 0 then Inl (AssertFailed 1) else
     ebind (int_arg tx 3) (\<lambda>new_limit2.
     if \<not> new_limit2 > 0 then Inl (AssertFailed 2) else
     ebind (arg tx 1) (\<lambda>counterparty.
     (let a1 = account1 (sender tx) counterparty;
          current_balance = tl_balance (locals st a1)
      in ebind (exposure_ok current_balance new_limit1 new_limit2) (\<lambda>ok.
         if \<not> ok then Inl (AssertFailed 3)
         else if \<not> group_size tx \<ge> 2 then Inl (AssertFailed 4)
         else Inr (localPut st a1 (\<lambda>l. l\<lparr>
                tl_limit1 := new_limit1,
                tl_limit2 := new_limit2\<rparr>)))))))"

definition freeze_trust_line :: "state \<Rightarrow> txn \<Rightarrow> error + state" where
  "freeze_trust_line st tx =
     (if \<not> sender tx = admin st then Inl (AssertFailed 1) else
      ebind (arg tx 1) (\<lambda>counterparty.
        Inr (localPut st (account1 (sender tx) counterparty) (\<lambda>l. l\<lparr>
               tl_allow_rippling := 0,
               tl_limit1 := 0,
               tl_limit2 := 0\<rparr>))))"

definition get_balance :: "state \<Rightarrow> txn \<Rightarrow> error + state" where
  "get_balance st tx = Inr st"

definition get_available_credit :: "state \<Rightarrow> txn \<Rightarrow> error + state" where
  "get_available_credit st tx =
     ebind (arg tx 1) (\<lambda>counterparty.
     (let l = locals st (account1 (sender tx) counterparty);
          current_balance = tl_balance l
      in ebind (if current_balance \<ge> 0 then usub (tl_limit1 l) current_balance
                else Inr (tl_limit1 l)) (\<lambda>available_1.
         if \<not> available_1 \<ge> 0 then Inl (AssertFailed 1) else
         ebind (if current_balance \<le> 0 then uadd (tl_limit2 l) current_balance
                else Inr (tl_limit2 l)) (\<lambda>available_2.
         if \<not> available_2 \<ge> 0 then Inl (AssertFailed 2)
         else Inr st))))"

definition asa_opt_in :: "state \<Rightarrow> txn \<Rightarrow> error + state" where
  "asa_opt_in st tx =
     ebind (int_arg tx 1) (\<lambda>asset_id.
     if \<not> asset_id > 0 then Inl (AssertFailed 1) else Inr st)"

definition settle_with_asa :: "state \<Rightarrow> txn \<Rightarrow> error + state" where
  "settle_with_asa st tx =
     ebind (int_arg tx 2) (\<lambda>settle_amount.
     if \<not> settle_amount > 0 then Inl (AssertFailed 1) else
     if \<not> group_size tx \<ge> 2 then Inl (AssertFailed 2) else
     ebind (arg tx 1) (\<lambda>counterparty.
     (let a1 = account1 (sender tx) counterparty;
          current_balance = tl_balance (locals st a1)
      in ebind (direction (sender tx) a1) (\<lambda>d.
         ebind (umul settle_amount d) (\<lambda>p.
         ebind (usub current_balance p) (\<lambda>new_balance.
         Inr (localPut st a1 (\<lambda>l. l\<lparr>tl_balance := new_balance\<rparr>))))))))"

subsection \<open>The program\<close>

text \<open>
  \<^verbatim>\<open>Cond\<close> takes the first branch whose condition holds and fails when none does. The
  first argument is read from the third condition on, so a call that reaches it
  without arguments fails there.
\<close>

definition approval_program :: "state \<Rightarrow> txn \<Rightarrow> error + state" where
  "approval_program st tx =
     (if application_id tx = 0 then on_creation st tx
      else if on_completion tx = OptIn then Inr st
      else ebind (arg tx 0) (\<lambda>a0.
        if a0 = ''create'' then create_trust_line st tx
        else if a0 = ''send'' then send_payment st tx
        else if on_completion tx = CloseOut then Inr st
        else if a0 = ''ripple'' then send_rippling st tx
        else if a0 = ''quality'' then update_quality st tx
        else if a0 = ''ripple_set'' then update_rippling st tx
        else if a0 = ''limits'' then update_limits st tx
        else if a0 = ''freeze'' then freeze_trust_line st tx
        else if a0 = ''balance'' then get_balance st tx
        else if a0 = ''credit'' then get_available_credit st tx
        else if a0 = ''asa_opt'' then asa_opt_in st tx
        else if a0 = ''settle'' then settle_with_asa st tx
        else Inl CondNoMatch))"

text \<open>A sequence of calls, each applied to the state the one before committed.\<close>

fun run :: "state \<Rightarrow> txn list \<Rightarrow> error + state" where
  "run st [] = Inr st"
| "run st (tx # txs) = ebind (approval_program st tx) (\<lambda>st'. run st' txs)"

subsection \<open>Properties stated about stored records and runs\<close>

text \<open>
  The bound the specification puts on a stored record:
  \<open>-limit_hi \<le> balance \<le> limit_lo\<close>, with \<open>limit_lo\<close> stored as \<open>limit1\<close> and
  \<open>limit_hi\<close> as \<open>limit2\<close>.
\<close>

definition in_bounds :: "trust_line \<Rightarrow> bool" where
  "in_bounds l \<longleftrightarrow>
     - int (tl_limit2 l) \<le> int (tl_balance l) \<and> int (tl_balance l) \<le> int (tl_limit1 l)"

text \<open>
  The admissibility condition of the specification for a resulting balance, which may
  be negative there: \<open>-limit_hi \<le> new_balance \<le> limit_lo\<close>. It follows the specification,
  not the source.
\<close>

definition spec_admissible :: "trust_line \<Rightarrow> int \<Rightarrow> bool" where
  "spec_admissible l new_balance \<longleftrightarrow>
     - int (tl_limit2 l) \<le> new_balance \<and> new_balance \<le> int (tl_limit1 l)"

text \<open>
  What every store reached by the program satisfies: no record carries a balance, and
  a record whose second limit is 0 has its first limit 0 as well.
\<close>

definition no_debt :: "state \<Rightarrow> bool" where
  "no_debt st \<longleftrightarrow>
     (\<forall>a. tl_balance (locals st a) = 0 \<and>
          (tl_limit2 (locals st a) = 0 \<longrightarrow> tl_limit1 (locals st a) = 0))"

text \<open>
  The forwarded amounts as the specification words them: \<open>forwarded[0] = amount\<close>,
  \<open>forwarded[k] = floor(forwarded[k-1] * 999000 / 1000000)\<close>. This definition follows
  the specification, not the source; it is what \<open>send_rippling_scratch\<close> is compared with.
\<close>

fun spec_forwarded :: "nat \<Rightarrow> nat \<Rightarrow> nat" where
  "spec_forwarded amount 0 = amount"
| "spec_forwarded amount (Suc k) = spec_forwarded amount k * 999000 div 1000000"

subsection \<open>Concrete accounts, calls and states\<close>

text \<open>
  Four 32-byte addresses, the calls used as concrete inputs, and concrete states.
  \<open>genesis\<close> is the state before the application is created; \<open>line_state\<close>,
  \<open>frozen_state\<close> and \<open>reopened_state\<close> are reached from it by the program;
  \<open>owing_state\<close> is \<open>line_state\<close> with a stored balance of 40.
  Integer arguments are written as the bytes \<^verbatim>\<open>Btoi\<close> decodes: \<open>0x64\<close> is 100,
  \<open>0x28\<close> is 40, \<open>0x32\<close> is 50, \<open>0x0A\<close> is 10, \<open>0x03 0xE8\<close> is 1000, \<open>0xC8\<close> is 200.
\<close>

definition alice :: bytes where "alice = ''AAAAAAAAAAAAAAAAAAAAAAAAAAAAAAAA''"
definition bob :: bytes where "bob = ''BBBBBBBBBBBBBBBBBBBBBBBBBBBBBBBB''"
definition carol :: bytes where "carol = ''CCCCCCCCCCCCCCCCCCCCCCCCCCCCCCCC''"
definition dave :: bytes where "dave = ''DDDDDDDDDDDDDDDDDDDDDDDDDDDDDDDD''"

definition call :: "bytes \<Rightarrow> bytes list \<Rightarrow> nat \<Rightarrow> txn" where
  "call s args gs = \<lparr> sender = s, application_id = 1, on_completion = NoOp,
       application_args = args, group_size = gs \<rparr>"

definition genesis :: state where
  "genesis = \<lparr> admin = [], next_tl_id = 0, locals = (\<lambda>_. empty_line) \<rparr>"

definition tx_deploy :: txn where
  "tx_deploy = \<lparr> sender = alice, application_id = 0, on_completion = NoOp,
       application_args = [], group_size = 1 \<rparr>"

definition tx_create :: txn where
  "tx_create = call alice [''create'', bob, [CHR 0x01], [CHR 0x64], [CHR 0x64], [CHR 0x01]] 1"
definition tx_send40 :: txn where
  "tx_send40 = call alice [''send'', bob, [CHR 0x28]] 1"
definition tx_freeze :: txn where
  "tx_freeze = call alice [''freeze'', bob] 1"
definition tx_send_back40 :: txn where
  "tx_send_back40 = call bob [''send'', alice, [CHR 0x28]] 1"
definition tx_limits50 :: txn where
  "tx_limits50 = call alice [''limits'', bob, [CHR 0x32], [CHR 0x32]] 2"
definition tx_ripple1 :: txn where
  "tx_ripple1 = call alice [''ripple'', [CHR 0x01], [CHR 0x0A], bob] 1"
definition tx_ripple3 :: txn where
  "tx_ripple3 = call alice [''ripple'', [CHR 0x03], [CHR 0x03, CHR 0xE8], bob, carol, dave] 1"
definition tx_settle200 :: txn where
  "tx_settle200 = call alice [''settle'', bob, [CHR 0xC8]] 2"
definition tx_settle40 :: txn where
  "tx_settle40 = call alice [''settle'', bob, [CHR 0x28]] 2"

definition line_state :: state where
  "line_state = \<lparr> admin = alice, next_tl_id = 1,
     locals = (\<lambda>_. empty_line)(alice := \<lparr> tl_account1 = alice, tl_account2 = bob,
        tl_asset_id = Itob 1, tl_limit1 = 100, tl_limit2 = 100, tl_balance = 0,
        tl_quality_in = 1000000, tl_quality_out = 1000000, tl_allow_rippling = 1 \<rparr>) \<rparr>"

definition owing_state :: state where
  "owing_state = line_state \<lparr> locals := (locals line_state)(alice :=
      (locals line_state alice)\<lparr>tl_balance := 40\<rparr>) \<rparr>"

definition frozen_state :: state where
  "frozen_state = line_state \<lparr> locals := (locals line_state)(alice :=
      (locals line_state alice)\<lparr>tl_allow_rippling := 0, tl_limit1 := 0, tl_limit2 := 0\<rparr>) \<rparr>"

definition reopened_state :: state where
  "reopened_state = frozen_state \<lparr> locals := (locals frozen_state)(alice :=
      (locals frozen_state alice)\<lparr>tl_limit1 := 50, tl_limit2 := 50\<rparr>) \<rparr>"

section \<open>Verification\<close>

subsection \<open>Evaluation rules and the concrete runs\<close>

lemma ebind_Inr [simp]: "ebind (Inr x) f = f x"
  by (simp add: ebind_def)

lemma ebind_Inl [simp]: "ebind (Inl e) f = Inl e"
  by (simp add: ebind_def)

lemma ebind_eq_Inr: "ebind r f = Inr y \<longleftrightarrow> (\<exists>x. r = Inr x \<and> f x = Inr y)"
  by (cases r) simp_all

lemmas ex_defs = alice_def bob_def carol_def dave_def call_def genesis_def tx_deploy_def
  tx_create_def tx_send40_def tx_freeze_def tx_send_back40_def tx_limits50_def tx_ripple1_def
  tx_ripple3_def tx_settle200_def tx_settle40_def line_state_def owing_state_def
  frozen_state_def reopened_state_def

lemmas op_defs = arg_def int_arg_def Btoi_def account1_def account2_def localPut_def direction_def
  credit_ok_def exposure_ok_def Int_const_def uadd_def umul_def usub_def Let_def

lemmas ripple_defs = send_rippling_def send_rippling_scratch_def ripple_init_def
  ripple_validate_def validate_hop_def ripple_execute_def

lemma run_append: "run st (xs @ ys) = ebind (run st xs) (\<lambda>s. run s ys)"
  by (induction xs arbitrary: st) (auto simp: ebind_def split: sum.splits)

lemma run_line_state: "run genesis [tx_deploy, tx_create] = Inr line_state"
  by (simp add: ex_defs op_defs approval_program_def on_creation_def create_trust_line_def
        empty_line_def)

lemma run_frozen_state: "run line_state [tx_freeze] = Inr frozen_state"
  by (simp add: ex_defs op_defs approval_program_def freeze_trust_line_def empty_line_def)

lemma run_reopened_state: "run frozen_state [tx_limits50] = Inr reopened_state"
  by (simp add: ex_defs op_defs approval_program_def update_limits_def empty_line_def)

lemma run_to_frozen: "run genesis [tx_deploy, tx_create, tx_freeze] = Inr frozen_state"
proof -
  have "run genesis ([tx_deploy, tx_create] @ [tx_freeze]) = Inr frozen_state"
    by (simp only: run_append run_line_state run_frozen_state ebind_Inr)
  then show ?thesis
    by simp
qed

lemma run_to_reopened:
  "run genesis [tx_deploy, tx_create, tx_freeze, tx_limits50] = Inr reopened_state"
proof -
  have "run genesis ([tx_deploy, tx_create] @ [tx_freeze] @ [tx_limits50]) = Inr reopened_state"
    by (simp only: run_append run_line_state run_frozen_state run_reopened_state ebind_Inr)
  then show ?thesis
    by simp
qed






text \<open>What a successful \<^verbatim>\<open>send\<close> and a successful \<^verbatim>\<open>settle\<close> imply.\<close>

lemma send_payment_Inr:
  assumes "send_payment st tx = Inr st'"
  shows "\<exists>recipient amount. arg tx 1 = Inr recipient \<and> int_arg tx 2 = Inr amount \<and> amount > 0
         \<and> sender tx = account1 (sender tx) recipient
         \<and> tl_limit2 (locals st (sender tx)) = 0
         \<and> tl_balance (locals st (sender tx)) + amount \<le> tl_limit1 (locals st (sender tx))
         \<and> st' = st\<lparr>locals := (locals st)(sender tx :=
                     (locals st (sender tx))\<lparr>tl_balance :=
                        tl_balance (locals st (sender tx)) + amount\<rparr>)\<rparr>"
  using assms
  by (auto simp: send_payment_def ebind_eq_Inr direction_def Int_const_def umul_def uadd_def
        credit_ok_def usub_def Let_def localPut_def split: if_splits)

lemma settle_with_asa_Inr:
  assumes "settle_with_asa st tx = Inr st'"
  shows "\<exists>counterparty settle_amount. arg tx 1 = Inr counterparty
         \<and> int_arg tx 2 = Inr settle_amount \<and> settle_amount > 0 \<and> group_size tx \<ge> 2
         \<and> sender tx = account1 (sender tx) counterparty
         \<and> settle_amount \<le> tl_balance (locals st (sender tx))
         \<and> st' = st\<lparr>locals := (locals st)(sender tx :=
                     (locals st (sender tx))\<lparr>tl_balance :=
                        tl_balance (locals st (sender tx)) - settle_amount\<rparr>)\<rparr>"
  using assms
  by (auto simp: settle_with_asa_def ebind_eq_Inr direction_def Int_const_def umul_def
        usub_def Let_def localPut_def split: if_splits)

subsection \<open>Canonical pair\<close>

text \<open>
  Claim C8. For all identities \<open>p \<noteq> q\<close> the role assignment does not depend on the
  order of the two arguments: \<open>(account1 p q, account2 p q)\<close> equals
  \<open>(account1 q p, account2 q p)\<close>, and the low account is strictly below the high one
  in the order on byte strings.
\<close>

theorem canonical_pair_commutes:
  "p \<noteq> q \<Longrightarrow>
     (account1 p q, account2 p q) = (account1 q p, account2 q p) \<and> account1 p q < account2 p q"
  by (auto simp: account1_def account2_def)

text \<open>The theorem at \<open>alice\<close> and \<open>bob\<close>.\<close>

theorem canonical_pair_commutes_witness:
  "alice \<noteq> bob \<and> (account1 alice bob, account2 alice bob) = (account1 bob alice, account2 bob alice)
     \<and> account1 alice bob < account2 alice bob"
proof -
  have ne: "alice \<noteq> bob"
    by (simp add: alice_def bob_def)
  from canonical_pair_commutes [OF ne] ne show ?thesis
    by blast
qed

subsection \<open>Creation\<close>

text \<open>
  Claim C5, as stated, fails. In \<open>line_state\<close>, reached by deployment and \<open>tx_create\<close>,
  the record of the pair Alice-Bob exists; the same \<open>create\<close> call is accepted again
  and the counter goes from 1 to 2. In \<open>owing_state\<close>, where that record holds a balance
  of 40, it is accepted as well and resets the balance to 0.
\<close>

theorem create_existing_counterexample:
  "tl_account1 (locals owing_state alice) = account1 alice bob
   \<and> tl_account2 (locals owing_state alice) = account2 alice bob
   \<and> create_trust_line owing_state tx_create = Inr (line_state\<lparr>next_tl_id := 2\<rparr>)
   \<and> tl_balance (locals owing_state alice) = 40
   \<and> tl_balance (locals (line_state\<lparr>next_tl_id := 2\<rparr>) alice) = 0
   \<and> next_tl_id owing_state = 1
   \<and> run genesis [tx_deploy, tx_create] = Inr line_state
   \<and> tl_account1 (locals line_state alice) = account1 alice bob
   \<and> tl_account2 (locals line_state alice) = account2 alice bob
   \<and> create_trust_line line_state tx_create = Inr (line_state\<lparr>next_tl_id := 2\<rparr>)
   \<and> next_tl_id line_state = 1"
proof -
  have "tl_account1 (locals owing_state alice) = account1 alice bob
   \<and> tl_account2 (locals owing_state alice) = account2 alice bob
   \<and> create_trust_line owing_state tx_create = Inr (line_state\<lparr>next_tl_id := 2\<rparr>)
   \<and> tl_balance (locals owing_state alice) = 40
   \<and> tl_balance (locals (line_state\<lparr>next_tl_id := 2\<rparr>) alice) = 0
   \<and> next_tl_id owing_state = 1
   \<and> tl_account1 (locals line_state alice) = account1 alice bob
   \<and> tl_account2 (locals line_state alice) = account2 alice bob
   \<and> create_trust_line line_state tx_create = Inr (line_state\<lparr>next_tl_id := 2\<rparr>)
   \<and> next_tl_id line_state = 1"
    by (simp add: ex_defs op_defs create_trust_line_def)
  with run_line_state show ?thesis
    by blast
qed

lemma overwrite_all_fields:
  fixes l :: trust_line
  shows "l\<lparr> tl_account1 := a1, tl_account2 := a2, tl_asset_id := asset,
            tl_limit1 := l1, tl_limit2 := l2, tl_balance := b,
            tl_quality_in := qi, tl_quality_out := qo, tl_allow_rippling := r \<rparr>
         = \<lparr> tl_account1 = a1, tl_account2 = a2, tl_asset_id = asset,
             tl_limit1 = l1, tl_limit2 = l2, tl_balance = b,
             tl_quality_in = qi, tl_quality_out = qo, tl_allow_rippling = r \<rparr>"
  by (cases l) simp

text \<open>
  Claim C5, amended. \<open>create\<close> makes no existence check: in every state, also one
  where the pair's low account already holds a record, a call with both limits positive
  and \<open>sender \<noteq> counterparty\<close> succeeds, overwrites the whole record (accounts, asset,
  limits and rippling flag as given, balance 0, both qualities 1000000) and increments
  the creation counter.
\<close>

theorem create_overwrites:
  assumes "int_arg tx 3 = Inr limit1" and "limit1 > 0"
    and "int_arg tx 4 = Inr limit2" and "limit2 > 0"
    and "arg tx 1 = Inr counterparty" and "sender tx \<noteq> counterparty"
    and "int_arg tx 2 = Inr asset_id" and "int_arg tx 5 = Inr allow_ripple"
  shows "create_trust_line st tx =
           Inr (st\<lparr> next_tl_id := next_tl_id st + 1,
                    locals := (locals st)(account1 (sender tx) counterparty :=
                      \<lparr> tl_account1 = account1 (sender tx) counterparty,
                        tl_account2 = account2 (sender tx) counterparty,
                        tl_asset_id = Itob asset_id,
                        tl_limit1 = limit1, tl_limit2 = limit2, tl_balance = 0,
                        tl_quality_in = 1000000, tl_quality_out = 1000000,
                        tl_allow_rippling = allow_ripple \<rparr>) \<rparr>)"
  using assms by (simp add: create_trust_line_def localPut_def overwrite_all_fields)

text \<open>The theorem at the repeated \<open>create\<close> on the existing line.\<close>

theorem create_overwrites_witness:
  "int_arg tx_create 3 = Inr 100 \<and> (100::nat) > 0 \<and> int_arg tx_create 4 = Inr 100
   \<and> arg tx_create 1 = Inr bob \<and> sender tx_create \<noteq> bob
   \<and> int_arg tx_create 2 = Inr 1 \<and> int_arg tx_create 5 = Inr 1
   \<and> create_trust_line owing_state tx_create =
           Inr (owing_state\<lparr> next_tl_id := next_tl_id owing_state + 1,
                    locals := (locals owing_state)(account1 (sender tx_create) bob :=
                      \<lparr> tl_account1 = account1 (sender tx_create) bob,
                        tl_account2 = account2 (sender tx_create) bob,
                        tl_asset_id = Itob 1,
                        tl_limit1 = 100, tl_limit2 = 100, tl_balance = 0,
                        tl_quality_in = 1000000, tl_quality_out = 1000000,
                        tl_allow_rippling = 1 \<rparr>) \<rparr>)"
proof -
  have d: "int_arg tx_create 3 = Inr 100" "int_arg tx_create 4 = Inr 100"
    "arg tx_create 1 = Inr bob" "sender tx_create \<noteq> bob"
    "int_arg tx_create 2 = Inr 1" "int_arg tx_create 5 = Inr 1"
    by (simp_all add: ex_defs op_defs)
  from create_overwrites [OF d(1) _ d(2) _ d(3) d(4) d(5) d(6), of owing_state] d
  show ?thesis by simp
qed

subsection \<open>Payment\<close>

text \<open>
  Claim C4 does not hold of the code. On \<open>line_state\<close> (limits 100/100, balance 0)
  Alice, the low account, sends 40 to Bob: \<open>amount > 0\<close>, sender and recipient differ and
  the new balance 40 lies within \<open>[-100, 100]\<close>, yet the call is rejected, because
  \<^verbatim>\<open>Int(0) - limit2_val\<close> is computed on unsigned values and traps for \<open>limit2 = 100\<close>.
  Bob's payment to Alice is rejected where \<^verbatim>\<open>Int(-1)\<close> is evaluated.
\<close>

theorem send_rejected_on_created_line:
  "run genesis [tx_deploy, tx_create] = Inr line_state
   \<and> int_arg tx_send40 2 = Inr 40 \<and> arg tx_send40 1 = Inr bob \<and> sender tx_send40 \<noteq> bob
   \<and> sender tx_send40 = account1 (sender tx_send40) bob
   \<and> tl_balance (locals line_state alice) = 0
   \<and> spec_admissible (locals line_state alice) (0 + 40)
   \<and> send_payment line_state tx_send40 = Inl Underflow
   \<and> int_arg tx_send_back40 2 = Inr 40 \<and> arg tx_send_back40 1 = Inr alice
   \<and> sender tx_send_back40 \<noteq> alice
   \<and> spec_admissible (locals line_state alice) (0 - 40)
   \<and> send_payment line_state tx_send_back40 = Inl IntOutOfRange"
proof -
  have "int_arg tx_send40 2 = Inr 40 \<and> arg tx_send40 1 = Inr bob \<and> sender tx_send40 \<noteq> bob
   \<and> sender tx_send40 = account1 (sender tx_send40) bob
   \<and> tl_balance (locals line_state alice) = 0
   \<and> spec_admissible (locals line_state alice) (0 + 40)
   \<and> send_payment line_state tx_send40 = Inl Underflow
   \<and> int_arg tx_send_back40 2 = Inr 40 \<and> arg tx_send_back40 1 = Inr alice
   \<and> sender tx_send_back40 \<noteq> alice
   \<and> spec_admissible (locals line_state alice) (0 - 40)
   \<and> send_payment line_state tx_send_back40 = Inl IntOutOfRange"
    by (simp add: ex_defs op_defs send_payment_def spec_admissible_def)
  with run_line_state show ?thesis
    by blast
qed

subsection \<open>Rippling\<close>

text \<open>
  Claim C9. Whenever \<open>send_rippling\<close> succeeds, the state it returns is the state it
  was called in: no per-line field and no global field is changed.
\<close>

theorem send_rippling_frame:
  "send_rippling st tx = Inr st' \<Longrightarrow> st' = st"
  by (auto simp: send_rippling_def ebind_eq_Inr)

lemma ripple3_owing: "send_rippling owing_state tx_ripple3 = Inr owing_state"
  by (simp add: ex_defs op_defs ripple_defs)

text \<open>A successful three-hop call on the line with balance 40.\<close>

theorem send_rippling_frame_witness:
  "send_rippling owing_state tx_ripple3 = Inr owing_state \<and> owing_state = owing_state"
  using send_rippling_frame [OF ripple3_owing] ripple3_owing
  by simp

text \<open>
  Claim C1, as stated, fails. Alice calls \<open>ripple\<close> with one hop (Bob) and amount 10;
  the scratch amount becomes 9. On \<open>line_state\<close> the Alice-Bob record admits a change
  of the balance by 9 and by 10 in either direction and has rippling enabled; the call
  succeeds and returns \<open>line_state\<close> itself, so the balance is still 0 and no delta was
  applied. On \<open>frozen_state\<close> the record admits none of these changes and has rippling
  disabled, and the call succeeds all the same. Both states are reached by the program.
\<close>

theorem ripple_checks_no_line_counterexample:
  "run genesis [tx_deploy, tx_create] = Inr line_state
   \<and> send_rippling line_state tx_ripple1 = Inr line_state
   \<and> send_rippling_scratch tx_ripple1 = Inr 9
   \<and> tl_allow_rippling (locals line_state alice) = 1
   \<and> tl_balance (locals line_state alice) = 0
   \<and> spec_admissible (locals line_state alice) (0 + 9)
   \<and> spec_admissible (locals line_state alice) (0 - 9)
   \<and> spec_admissible (locals line_state alice) (0 + 10)
   \<and> spec_admissible (locals line_state alice) (0 - 10)
   \<and> run genesis [tx_deploy, tx_create, tx_freeze] = Inr frozen_state
   \<and> send_rippling frozen_state tx_ripple1 = Inr frozen_state
   \<and> tl_allow_rippling (locals frozen_state alice) = 0
   \<and> tl_balance (locals frozen_state alice) = 0
   \<and> \<not> spec_admissible (locals frozen_state alice) (0 + 9)
   \<and> \<not> spec_admissible (locals frozen_state alice) (0 - 9)
   \<and> \<not> spec_admissible (locals frozen_state alice) (0 + 10)
   \<and> \<not> spec_admissible (locals frozen_state alice) (0 - 10)"
proof -
  have "send_rippling line_state tx_ripple1 = Inr line_state
   \<and> send_rippling_scratch tx_ripple1 = Inr 9
   \<and> tl_allow_rippling (locals line_state alice) = 1
   \<and> tl_balance (locals line_state alice) = 0
   \<and> spec_admissible (locals line_state alice) (0 + 9)
   \<and> spec_admissible (locals line_state alice) (0 - 9)
   \<and> spec_admissible (locals line_state alice) (0 + 10)
   \<and> spec_admissible (locals line_state alice) (0 - 10)
   \<and> send_rippling frozen_state tx_ripple1 = Inr frozen_state
   \<and> tl_allow_rippling (locals frozen_state alice) = 0
   \<and> tl_balance (locals frozen_state alice) = 0
   \<and> \<not> spec_admissible (locals frozen_state alice) (0 + 9)
   \<and> \<not> spec_admissible (locals frozen_state alice) (0 - 9)
   \<and> \<not> spec_admissible (locals frozen_state alice) (0 + 10)
   \<and> \<not> spec_admissible (locals frozen_state alice) (0 - 10)"
    by (simp add: ex_defs op_defs ripple_defs spec_admissible_def)
  with run_line_state run_to_frozen show ?thesis
    by blast
qed

text \<open>
  Claim C1, amended. A \<open>ripple\<close> call with 1 to 6 hops, \<open>amount > 0\<close>, a 32-byte
  identifier for each counted hop and \<open>amount * 999000 < 2^64\<close> (the one product the
  call computes does not overflow) succeeds in every state and returns that state
  unchanged: no trust line is read, no credit or rippling check is made and no balance
  delta is applied. (A rejected call produces no state at all.)
\<close>

theorem ripple_succeeds_unchanged:
  assumes "int_arg tx 1 = Inr num_hops" and "1 \<le> num_hops" and "num_hops \<le> 6"
    and "int_arg tx 2 = Inr amount" and "amount > 0"
    and "\<forall>k. 1 \<le> k \<and> k \<le> num_hops \<longrightarrow> (\<exists>h. arg tx (k + 2) = Inr h \<and> length h = 32)"
    and "amount * 999000 < 2 ^ 64"
  shows "send_rippling st tx = Inr st"
proof -
  have v: "validate_hop tx num_hops k = Inr ()" if "1 \<le> k" for k
  proof (cases "k \<le> num_hops")
    case True
    with that assms(6) obtain h where "arg tx (k + 2) = Inr h" and "length h = 32"
      by blast
    with True show ?thesis
      by (simp add: validate_hop_def)
  next
    case False
    then show ?thesis
      by (simp add: validate_hop_def)
  qed
  from assms(2,7) have e: "ripple_execute num_hops amount = Inr (amount * 999000 div 1000000)"
    by (simp add: ripple_execute_def umul_def)
  show ?thesis
    using assms(1-5)
    by (simp add: send_rippling_def send_rippling_scratch_def ripple_init_def
          ripple_validate_def v e)
qed

text \<open>The theorem at the one-hop call on the frozen line.\<close>

theorem ripple_succeeds_unchanged_witness:
  "int_arg tx_ripple1 1 = Inr 1 \<and> (1::nat) \<le> 1 \<and> (1::nat) \<le> 6
   \<and> int_arg tx_ripple1 2 = Inr 10 \<and> (10::nat) > 0
   \<and> arg tx_ripple1 3 = Inr bob \<and> length bob = 32
   \<and> (10::nat) * 999000 < 2 ^ 64
   \<and> send_rippling frozen_state tx_ripple1 = Inr frozen_state"
proof -
  have d: "int_arg tx_ripple1 1 = Inr 1" "int_arg tx_ripple1 2 = Inr 10"
    by (simp_all add: ex_defs op_defs)
  have h: "\<forall>k. 1 \<le> k \<and> k \<le> (1::nat) \<longrightarrow> (\<exists>h. arg tx_ripple1 (k + 2) = Inr h \<and> length h = 32)"
  proof (intro allI impI)
    fix k :: nat assume "1 \<le> k \<and> k \<le> 1"
    then have "k = 1" by simp
    then show "\<exists>h. arg tx_ripple1 (k + 2) = Inr h \<and> length h = 32"
      by (simp add: ex_defs op_defs)
  qed
  have b: "arg tx_ripple1 3 = Inr bob" "length bob = 32"
    by (simp_all add: ex_defs op_defs)
  have n: "(10::nat) * 999000 < 2 ^ 64"
    by simp
  from ripple_succeeds_unchanged [OF d(1) _ _ d(2) _ h n, of frozen_state] d b n
  show ?thesis by simp
qed

lemma spec_forwarded_Suc:
  "spec_forwarded 1000 (Suc 0) = 999"
  "spec_forwarded 1000 (Suc (Suc 0)) = 998"
  "spec_forwarded 1000 (Suc (Suc (Suc 0))) = 997"
  by simp_all

lemma spec_forwarded_1000:
  "spec_forwarded 1000 1 = 999" "spec_forwarded 1000 2 = 998" "spec_forwarded 1000 3 = 997"
  by (simp_all only: One_nat_def numeral_2_eq_2 numeral_3_eq_3 spec_forwarded_Suc)

lemma ripple3_scratch: "send_rippling_scratch tx_ripple3 = Inr 999"
  by (simp add: ex_defs op_defs ripple_defs)

lemma ripple3_args: "int_arg tx_ripple3 1 = Inr 3" "int_arg tx_ripple3 2 = Inr 1000"
  by (simp_all add: ex_defs op_defs)

text \<open>
  Claim C3, as stated, fails. For three hops and amount 1000 the specification's
  forwarded amounts are 999, 998, 997; the scratch variable of \<open>send_rippling\<close>, the
  only forwarded amount the call computes, ends at 999 and not at \<open>forwarded[3] = 997\<close>.
\<close>

theorem ripple_decay_counterexample:
  "send_rippling_scratch tx_ripple3 = Inr 999
   \<and> int_arg tx_ripple3 1 = Inr 3 \<and> int_arg tx_ripple3 2 = Inr 1000
   \<and> spec_forwarded 1000 2 = 998 \<and> spec_forwarded 1000 3 = 997
   \<and> send_rippling_scratch tx_ripple3 \<noteq> Inr (spec_forwarded 1000 3)"
  by (simp only: ripple3_scratch ripple3_args spec_forwarded_1000) simp

text \<open>
  Claim C3, amended. Every successful \<open>ripple\<close> call (hop count 1 to 6, \<open>amount > 0\<close>)
  computes one forwarded amount, whatever the hop count: the scratch value is
  \<open>floor(amount * 999000 / 1000000)\<close>, the specification's \<open>forwarded[1]\<close>. Over three
  hops with amount 1000 it is 999.
\<close>

theorem ripple_single_decay:
  assumes "send_rippling_scratch tx = Inr v"
  shows "\<exists>num_hops amount. int_arg tx 1 = Inr num_hops \<and> 1 \<le> num_hops \<and> num_hops \<le> 6
           \<and> int_arg tx 2 = Inr amount \<and> amount > 0
           \<and> v = amount * 999000 div 1000000 \<and> v = spec_forwarded amount 1"
  using assms
  by (auto simp: send_rippling_scratch_def ripple_init_def ripple_execute_def umul_def
           ebind_eq_Inr split: if_splits)

text \<open>The theorem at the three-hop call with amount 1000.\<close>

theorem ripple_single_decay_witness:
  "send_rippling_scratch tx_ripple3 = Inr 999
   \<and> (\<exists>num_hops amount. int_arg tx_ripple3 1 = Inr num_hops \<and> 1 \<le> num_hops \<and> num_hops \<le> 6
           \<and> int_arg tx_ripple3 2 = Inr amount \<and> amount > 0
           \<and> (999::nat) = amount * 999000 div 1000000 \<and> 999 = spec_forwarded amount 1)"
  using ripple_single_decay [OF ripple3_scratch] ripple3_scratch
  by simp

subsection \<open>Limit update\<close>

text \<open>
  Claim C7. A \<open>limits\<close> call succeeds only if both new limits are positive and, when
  the current balance is \<open>\<ge> 0\<close>, \<open>new_limit1 \<ge> balance\<close>, and when it is \<open>< 0\<close>,
  \<open>new_limit2 \<ge> -balance\<close>; on success the fields \<open>limit1\<close> and \<open>limit2\<close> of the low
  account's record hold the new values, and nothing else in the state has changed.
\<close>

theorem update_limits_success:
  assumes "update_limits st tx = Inr st'"
  shows "\<exists>counterparty new_limit1 new_limit2.
           arg tx 1 = Inr counterparty \<and> int_arg tx 2 = Inr new_limit1 \<and> int_arg tx 3 = Inr new_limit2
         \<and> new_limit1 > 0 \<and> new_limit2 > 0
         \<and> (0 \<le> int (tl_balance (locals st (account1 (sender tx) counterparty)))
              \<longrightarrow> int (tl_balance (locals st (account1 (sender tx) counterparty))) \<le> int new_limit1)
         \<and> (int (tl_balance (locals st (account1 (sender tx) counterparty))) < 0
              \<longrightarrow> - int (tl_balance (locals st (account1 (sender tx) counterparty))) \<le> int new_limit2)
         \<and> tl_limit1 (locals st' (account1 (sender tx) counterparty)) = new_limit1
         \<and> tl_limit2 (locals st' (account1 (sender tx) counterparty)) = new_limit2
         \<and> st' = st\<lparr>locals := (locals st)(account1 (sender tx) counterparty :=
                     (locals st (account1 (sender tx) counterparty))
                        \<lparr>tl_limit1 := new_limit1, tl_limit2 := new_limit2\<rparr>)\<rparr>"
  using assms
  by (auto simp: update_limits_def ebind_eq_Inr exposure_ok_def usub_def Let_def localPut_def
           split: if_splits)

lemma limits50_line:
  "update_limits line_state tx_limits50
     = Inr (line_state\<lparr>locals := (locals line_state)(alice :=
              (locals line_state alice)\<lparr>tl_limit1 := 50, tl_limit2 := 50\<rparr>)\<rparr>)"
  by (simp add: ex_defs op_defs update_limits_def)

text \<open>The theorem at the fresh 100/100 line (balance 0) and new limits 50/50.\<close>

theorem update_limits_success_witness:
  "update_limits line_state tx_limits50
     = Inr (line_state\<lparr>locals := (locals line_state)(alice :=
              (locals line_state alice)\<lparr>tl_limit1 := 50, tl_limit2 := 50\<rparr>)\<rparr>)
   \<and> arg tx_limits50 1 = Inr bob \<and> int_arg tx_limits50 2 = Inr 50 \<and> int_arg tx_limits50 3 = Inr 50
   \<and> account1 (sender tx_limits50) bob = alice
   \<and> tl_balance (locals line_state alice) = 0
   \<and> tl_limit1 (locals (line_state\<lparr>locals := (locals line_state)(alice :=
              (locals line_state alice)\<lparr>tl_limit1 := 50, tl_limit2 := 50\<rparr>)\<rparr>) alice) = 50
   \<and> tl_limit2 (locals (line_state\<lparr>locals := (locals line_state)(alice :=
              (locals line_state alice)\<lparr>tl_limit1 := 50, tl_limit2 := 50\<rparr>)\<rparr>) alice) = 50"
proof -
  have d: "arg tx_limits50 1 = Inr bob" "int_arg tx_limits50 2 = Inr 50"
    "int_arg tx_limits50 3 = Inr 50" "account1 (sender tx_limits50) bob = alice"
    "tl_balance (locals line_state alice) = 0"
    by (simp_all add: ex_defs op_defs)
  from update_limits_success [OF limits50_line] d
  have "tl_limit1 (locals (line_state\<lparr>locals := (locals line_state)(alice :=
              (locals line_state alice)\<lparr>tl_limit1 := 50, tl_limit2 := 50\<rparr>)\<rparr>) alice) = 50
      \<and> tl_limit2 (locals (line_state\<lparr>locals := (locals line_state)(alice :=
              (locals line_state alice)\<lparr>tl_limit1 := 50, tl_limit2 := 50\<rparr>)\<rparr>) alice) = 50"
    by auto
  with limits50_line d show ?thesis
    by blast
qed

subsection \<open>Freeze\<close>




subsection \<open>The balance bound\<close>

text \<open>Every subroutine takes a store without debt to a store without debt.\<close>

lemma no_debt_localPut:
  "no_debt st \<Longrightarrow> tl_balance (f (locals st a)) = 0
     \<Longrightarrow> (tl_limit2 (f (locals st a)) = 0 \<longrightarrow> tl_limit1 (f (locals st a)) = 0)
     \<Longrightarrow> no_debt (localPut st a f)"
  by (simp add: no_debt_def localPut_def)

lemma create_no_debt:
  "no_debt st \<Longrightarrow> create_trust_line st tx = Inr st' \<Longrightarrow> no_debt st'"
  by (auto simp: create_trust_line_def ebind_eq_Inr no_debt_def localPut_def split: if_splits)

lemma send_no_debt:
  "no_debt st \<Longrightarrow> send_payment st tx = Inr st' \<Longrightarrow> no_debt st'"
  by (auto simp: no_debt_def dest!: send_payment_Inr)

lemma ripple_no_debt:
  "no_debt st \<Longrightarrow> send_rippling st tx = Inr st' \<Longrightarrow> no_debt st'"
  by (auto simp: send_rippling_def ebind_eq_Inr)

lemma quality_no_debt:
  "no_debt st \<Longrightarrow> update_quality st tx = Inr st' \<Longrightarrow> no_debt st'"
  by (auto simp: update_quality_def ebind_eq_Inr no_debt_def localPut_def split: if_splits)

lemma rippling_no_debt:
  "no_debt st \<Longrightarrow> update_rippling st tx = Inr st' \<Longrightarrow> no_debt st'"
  by (auto simp: update_rippling_def ebind_eq_Inr no_debt_def localPut_def split: if_splits)

lemma limits_no_debt:
  "no_debt st \<Longrightarrow> update_limits st tx = Inr st' \<Longrightarrow> no_debt st'"
  by (auto simp: update_limits_def ebind_eq_Inr Let_def no_debt_def localPut_def
           split: if_splits)

lemma freeze_no_debt:
  "no_debt st \<Longrightarrow> freeze_trust_line st tx = Inr st' \<Longrightarrow> no_debt st'"
  by (auto simp: freeze_trust_line_def ebind_eq_Inr no_debt_def localPut_def split: if_splits)

lemma settle_no_debt:
  "no_debt st \<Longrightarrow> settle_with_asa st tx = Inr st' \<Longrightarrow> no_debt st'"
  by (auto simp: no_debt_def dest!: settle_with_asa_Inr)

lemma readonly_same_state:
  "get_balance st tx = Inr st' \<Longrightarrow> st' = st"
  "get_available_credit st tx = Inr st' \<Longrightarrow> st' = st"
  "asa_opt_in st tx = Inr st' \<Longrightarrow> st' = st"
  by (auto simp: get_balance_def get_available_credit_def asa_opt_in_def ebind_eq_Inr Let_def
           split: if_splits)

lemma creation_no_debt:
  "no_debt st \<Longrightarrow> on_creation st tx = Inr st' \<Longrightarrow> no_debt st'"
  by (auto simp: on_creation_def no_debt_def)

lemma step_no_debt:
  assumes "no_debt st" and "approval_program st tx = Inr st'"
  shows "no_debt st'"
proof (cases "application_id tx = 0 \<or> on_completion tx = OptIn")
  case True
  with assms show ?thesis
    by (auto simp: approval_program_def dest: creation_no_debt split: if_splits)
next
  case False
  with assms(2) obtain a0 where a0: "arg tx 0 = Inr a0"
    by (auto simp: approval_program_def ebind_eq_Inr)
  from False a0 assms show ?thesis
    by (auto simp: approval_program_def split: if_splits
             dest: create_no_debt send_no_debt ripple_no_debt quality_no_debt
                   rippling_no_debt limits_no_debt freeze_no_debt settle_no_debt
                   readonly_same_state)
qed

lemma run_no_debt:
  "no_debt st \<Longrightarrow> run st txs = Inr st' \<Longrightarrow> no_debt st'"
proof (induction txs arbitrary: st)
  case Nil
  then show ?case by simp
next
  case (Cons tx txs)
  from Cons.prems(2) obtain s where s: "approval_program st tx = Inr s" and r: "run s txs = Inr st'"
    by (auto simp: ebind_eq_Inr)
  from Cons.prems(1) s have "no_debt s"
    by (rule step_no_debt)
  from this r show ?case
    by (rule Cons.IH)
qed

lemma empty_store_no_debt: "locals st = (\<lambda>_. empty_line) \<Longrightarrow> no_debt st"
  by (simp add: no_debt_def empty_line_def)

text \<open>
  Claim C2. Starting from the empty store, after any sequence of successful calls of
  the program (create, send, ripple, quality, ripple_set, limits and freeze among them),
  every stored record satisfies \<open>-limit2 \<le> balance \<le> limit1\<close>. The sequence is
  arbitrary, so the bound holds after every committed operation.
\<close>

theorem balance_within_limits:
  assumes "locals st = (\<lambda>_. empty_line)" and "run st txs = Inr st'"
  shows "\<forall>a. in_bounds (locals st' a)"
proof -
  from assms(1) have "no_debt st"
    by (rule empty_store_no_debt)
  from this assms(2) have "no_debt st'"
    by (rule run_no_debt)
  then show ?thesis
    by (simp add: no_debt_def in_bounds_def)
qed

lemma genesis_empty: "locals genesis = (\<lambda>_. empty_line)"
  by (simp add: genesis_def)

text \<open>The theorem on the run deploy, create, freeze, limits 50/50.\<close>

theorem balance_within_limits_witness:
  "locals genesis = (\<lambda>_. empty_line)
   \<and> run genesis [tx_deploy, tx_create, tx_freeze, tx_limits50] = Inr reopened_state
   \<and> (\<forall>a. in_bounds (locals reopened_state a))"
  using balance_within_limits [OF genesis_empty run_to_reopened] genesis_empty run_to_reopened
  by blast

subsection \<open>Settlement\<close>




end
